theory Spec2Isabelle
  imports Main "HOL-Library.Word"
begin

section \<open>Types of PyXchange.hpp\<close>

text \<open>
  \<^verbatim>\<open>price_t\<close>, \<^verbatim>\<open>quantity_t\<close> and \<^verbatim>\<open>orderId_t\<close> are typedefs of the C++ \<^verbatim>\<open>int\<close>,
  taken as 32 bits wide and read in two's complement: comparisons are the signed ones
  (\<open>\<le>s\<close>, \<open><s\<close>) and \<open>sint\<close> gives the value. \<^verbatim>\<open>prio_t\<close> is a reading of the
  high-resolution clock, modelled as a natural number of ticks.
\<close>

type_synonym price_t = "32 word"
type_synonym quantity_t = "32 word"
type_synonym orderId_t = "32 word"
type_synonym prio_t = nat

text \<open>
  Modelled from the spec: \<^verbatim>\<open>utils/Side.hpp\<close> (the constants \<^verbatim>\<open>side::bid_\<close>,
  \<^verbatim>\<open>side::ask_\<close>, \<^verbatim>\<open>side::wBuy\<close>, \<^verbatim>\<open>side::wSell\<close> and the tests \<^verbatim>\<open>side::isBid\<close>,
  \<^verbatim>\<open>side::isAsk\<close>) is not among the sources. The specification describes the side as a
  two-valued tag {BID, ASK} with the tests \<^verbatim>\<open>is_bid\<close> and \<^verbatim>\<open>is_ask\<close>, and the
  inbound messages carry it as the strings "BUY" and "SELL". In PyXchange.hpp \<^verbatim>\<open>side_t\<close>
  is an \<^verbatim>\<open>unsigned short\<close>; only the two values \<^verbatim>\<open>bid_\<close> and \<^verbatim>\<open>ask_\<close> are ever
  stored in it by Order.cpp. They are the constructors \<open>bid\<close> and \<open>ask\<close> here, and the
  source's names ending in an underscore are written with a prime.
\<close>

datatype side_t = bid | ask

definition isBid :: "side_t \<Rightarrow> bool" where
  "isBid side' = (side' = bid)"

definition isAsk :: "side_t \<Rightarrow> bool" where
  "isAsk side' = (side' = ask)"

definition wBuy :: string where
  "wBuy = ''BUY''"

definition wSell :: string where
  "wSell = ''SELL''"

text \<open>
  Modelled from the spec: \<^verbatim>\<open>utils/Constants.hpp\<close> (the dictionary keys of namespace
  \<^verbatim>\<open>keys\<close>) is not among the sources. The field names are those of the inbound
  \<^verbatim>\<open>createOrder\<close> record of the specification.
\<close>

definition keys_side :: string where
  "keys_side = ''side''"

definition keys_orderId :: string where
  "keys_orderId = ''orderId''"

definition keys_price :: string where
  "keys_price = ''price''"

definition keys_quantity :: string where
  "keys_quantity = ''quantity''"

definition numeric_limits_max :: price_t where
  "numeric_limits_max = 0x7FFFFFFF"

definition numeric_limits_min :: price_t where
  "numeric_limits_min = 0x80000000"


section \<open>The decoded message and the exceptions\<close>

text \<open>
  The decoded message is a Python dictionary from field names to Python objects. An
  object is seen here the way the two extractors used by Order.cpp see it: an integer
  (Python integers are unbounded), a text string, a byte string, or an object of any
  other type. A byte string is given by what the interpreter's default codec makes of
  it: \<open>PyBytes s\<close> is a byte string that decodes to the text \<open>s\<close> (\<^verbatim>\<open>b'BUY'\<close> is
  \<open>PyBytes ''BUY''\<close>), \<open>PyBytesUndecodable\<close> one that the codec refuses
  (\<^verbatim>\<open>b'\xff'\<close>).
\<close>

datatype pyobj = PyInt int | PyStr string | PyBytes string | PyBytesUndecodable | PyOther

type_synonym dict = "string \<rightharpoonup> pyobj"

text \<open>
  What a function of Order.cpp can throw: a pending Python exception travelling as
  \<^verbatim>\<open>error_already_set\<close> (\<open>PyErr\<close>), or one of the engine's own typed errors.
\<close>

datatype pyexc = KeyError | TypeError | OverflowError | UnicodeDecodeError

datatype exn = PyErr pyexc | WrongSide | OrderIdError | PriceError | QuantityError

text \<open>\<^verbatim>\<open>decoded[ key ]\<close>: a missing key raises \<^verbatim>\<open>KeyError\<close>.\<close>

definition getitem :: "dict \<Rightarrow> string \<Rightarrow> exn + pyobj" where
  "getitem decoded key =
     (case decoded key of
        None \<Rightarrow> Inl (PyErr KeyError)
      | Some v \<Rightarrow> Inr v)"

text \<open>
  \<^verbatim>\<open>py::extract<const int>( obj )\<close>, the conversion of the binding library. An object
  that is not an integer has no conversion to \<^verbatim>\<open>int\<close> and raises \<^verbatim>\<open>TypeError\<close>. An
  integer is read as a C \<^verbatim>\<open>long\<close> and narrowed to \<^verbatim>\<open>int\<close> by a checked cast: a value
  that does not fit is not wrapped around, the conversion throws, and the caller of the
  engine sees \<^verbatim>\<open>OverflowError\<close>. That exception is neither \<^verbatim>\<open>KeyError\<close> nor
  \<^verbatim>\<open>TypeError\<close>. (A Python \<^verbatim>\<open>bool\<close> is an integer, 0 or 1, for this conversion.)
\<close>

fun extract_int :: "pyobj \<Rightarrow> exn + 32 word" where
  "extract_int (PyInt n) =
     (if - (2 ^ 31) \<le> n \<and> n < 2 ^ 31 then Inr (word_of_int n)
      else Inl (PyErr OverflowError))"
| "extract_int (PyStr s) = Inl (PyErr TypeError)"
| "extract_int (PyBytes s) = Inl (PyErr TypeError)"
| "extract_int PyBytesUndecodable = Inl (PyErr TypeError)"
| "extract_int PyOther = Inl (PyErr TypeError)"

text \<open>
  \<^verbatim>\<open>py::extract<const std::wstring>( obj )\<close>, the conversion of the binding library. A
  text string is taken as it is. A byte string is accepted too and decoded with the
  default codec: when the codec refuses it, the conversion ends with
  \<^verbatim>\<open>UnicodeDecodeError\<close>, which is neither \<^verbatim>\<open>KeyError\<close> nor \<^verbatim>\<open>TypeError\<close>. Every other
  object has no conversion to a wide string and raises \<^verbatim>\<open>TypeError\<close>.
\<close>

fun extract_wstring :: "pyobj \<Rightarrow> exn + string" where
  "extract_wstring (PyStr s) = Inr s"
| "extract_wstring (PyBytes s) = Inr s"
| "extract_wstring PyBytesUndecodable = Inl (PyErr UnicodeDecodeError)"
| "extract_wstring (PyInt n) = Inl (PyErr TypeError)"
| "extract_wstring PyOther = Inl (PyErr TypeError)"

text \<open>
  Modelled from the spec: \<^verbatim>\<open>utils/Exception.hpp\<close> (\<^verbatim>\<open>pyexc::translate\<close>) is not among
  the sources. Order.cpp calls it with the typed error, the decoding closure and the
  list \<^verbatim>\<open>{ PyExc_KeyError, PyExc_TypeError }\<close>; the specification says that a missing or
  wrong-typed field gives the typed error. So a pending Python exception of one of the
  listed kinds is replaced by the typed error; every other outcome of the closure is
  passed on unchanged. The closure is represented by the outcome of running it.
\<close>

definition translate :: "exn \<Rightarrow> exn + 'a \<Rightarrow> pyexc list \<Rightarrow> exn + 'a" where
  "translate E decode exceptions =
     (case decode of
        Inl (PyErr p) \<Rightarrow> if p \<in> set exceptions then Inl E else Inl (PyErr p)
      | Inl e \<Rightarrow> Inl e
      | Inr v \<Rightarrow> Inr v)"


section \<open>Order.cpp\<close>

record Order =
  isMarketOrder :: bool
  trader :: nat
  time :: prio_t
  side :: side_t
  orderId :: orderId_t
  price :: price_t
  quantity :: quantity_t

definition extractSide :: "dict \<Rightarrow> exn + side_t" where
  "extractSide decoded =
     translate WrongSide
       (case getitem decoded keys_side of
          Inl e \<Rightarrow> Inl e
        | Inr v \<Rightarrow>
            (case extract_wstring v of
               Inl e \<Rightarrow> Inl e
             | Inr side' \<Rightarrow>
                 if side' = wBuy then Inr bid
                 else if side' = wSell then Inr ask
                 else Inl WrongSide))
       [KeyError, TypeError]"

definition extractOrderId :: "dict \<Rightarrow> exn + orderId_t" where
  "extractOrderId decoded =
     translate OrderIdError
       (case getitem decoded keys_orderId of
          Inl e \<Rightarrow> Inl e
        | Inr v \<Rightarrow>
            (case extract_int v of
               Inl e \<Rightarrow> Inl e
             | Inr orderId' \<Rightarrow>
                 if 0 <s orderId' then Inr orderId'
                 else Inl OrderIdError))
       [KeyError, TypeError]"

definition extractPrice :: "bool \<Rightarrow> side_t \<Rightarrow> dict \<Rightarrow> exn + price_t" where
  "extractPrice isMarketOrder' side' decoded =
     (if isMarketOrder' \<and> isBid side' then Inr numeric_limits_max
      else if isMarketOrder' \<and> isAsk side' then Inr numeric_limits_min
      else
        translate PriceError
          (case getitem decoded keys_price of
             Inl e \<Rightarrow> Inl e
           | Inr v \<Rightarrow>
               (case extract_int v of
                  Inl e \<Rightarrow> Inl e
                | Inr price' \<Rightarrow>
                    if 0 <s price' then Inr price'
                    else Inl PriceError))
          [KeyError, TypeError])"

definition extractQuantity :: "dict \<Rightarrow> exn + quantity_t" where
  "extractQuantity decoded =
     translate QuantityError
       (case getitem decoded keys_quantity of
          Inl e \<Rightarrow> Inl e
        | Inr v \<Rightarrow>
            (case extract_int v of
               Inl e \<Rightarrow> Inl e
             | Inr quantity' \<Rightarrow>
                 if 0 <s quantity' then Inr quantity'
                 else Inl QuantityError))
       [KeyError, TypeError]"

text \<open>
  The constructor. Its member initialisers run in the order \<^verbatim>\<open>isMarketOrder\<close>,
  \<^verbatim>\<open>trader\<close>, \<^verbatim>\<open>time\<close>, \<^verbatim>\<open>side\<close>, \<^verbatim>\<open>orderId\<close>, \<^verbatim>\<open>price\<close>, \<^verbatim>\<open>quantity\<close>, and the first
  one that throws ends the construction. The clock reading is the argument \<open>now\<close>.

  Modelled from the spec: \<^verbatim>\<open>order/Order.hpp\<close> (the declaration of the members, which
  fixes the order of their initialisation) is not among the sources. The order is taken
  as the initialiser list of Order.cpp writes it, which is the order in which the
  specification lists the fields \<^verbatim>\<open>side\<close>, \<^verbatim>\<open>order_id\<close>, \<^verbatim>\<open>price\<close>, \<^verbatim>\<open>quantity\<close>; the
  initialiser of \<^verbatim>\<open>price\<close> reads the members \<^verbatim>\<open>isMarketOrder\<close> and \<^verbatim>\<open>side\<close>.
\<close>

definition new_Order :: "nat \<Rightarrow> prio_t \<Rightarrow> dict \<Rightarrow> bool \<Rightarrow> exn + Order" where
  "new_Order trader' now decoded isMarketOrder' =
     (case extractSide decoded of
        Inl e \<Rightarrow> Inl e
      | Inr side' \<Rightarrow>
          (case (if isMarketOrder' then Inr 0 else extractOrderId decoded) of
             Inl e \<Rightarrow> Inl e
           | Inr orderId' \<Rightarrow>
               (case extractPrice isMarketOrder' side' decoded of
                  Inl e \<Rightarrow> Inl e
                | Inr price' \<Rightarrow>
                    (case extractQuantity decoded of
                       Inl e \<Rightarrow> Inl e
                     | Inr quantity' \<Rightarrow>
                         Inr \<lparr> isMarketOrder = isMarketOrder',
                               trader = trader',
                               time = now,
                               side = side',
                               orderId = orderId',
                               price = price',
                               quantity = quantity' \<rparr>))))"

text \<open>\<^verbatim>\<open>Order::comparePrice\<close>: \<open>own\<close> is \<^verbatim>\<open>this\<close>, \<open>order\<close> the argument.\<close>

definition comparePrice :: "Order \<Rightarrow> Order \<Rightarrow> bool" where
  "comparePrice own order =
     (if isBid (side own) \<and> isAsk (side order) then price order \<le>s price own
      else if isAsk (side own) \<and> isBid (side order) then price own \<le>s price order
      else False)"


section \<open>Fields of a decoded record\<close>

text \<open>
  The words used below for the fields of a decoded record. The side is valid when it is
  one of the two text strings, as the decoder of the messages gives them. It is accepted
  when it reads as one of the two, as a text string or as a byte string, and
  undecodable when it is a byte string that the codec refuses. An integer field is valid
  when it holds a positive integer that fits \<^verbatim>\<open>int\<close>; it is out of range when it holds
  an integer that does not fit.
\<close>

definition valid_side :: "dict \<Rightarrow> bool" where
  "valid_side d = (d keys_side = Some (PyStr wBuy) \<or> d keys_side = Some (PyStr wSell))"

definition accepted_side :: "dict \<Rightarrow> bool" where
  "accepted_side d =
     (d keys_side = Some (PyStr wBuy) \<or> d keys_side = Some (PyStr wSell)
      \<or> d keys_side = Some (PyBytes wBuy) \<or> d keys_side = Some (PyBytes wSell))"


definition valid_int :: "dict \<Rightarrow> string \<Rightarrow> bool" where
  "valid_int d k =
     (case d k of
        None \<Rightarrow> False
      | Some (PyInt n) \<Rightarrow> 0 < n \<and> n < 2 ^ 31
      | Some (PyStr s) \<Rightarrow> False
      | Some (PyBytes s) \<Rightarrow> False
      | Some PyBytesUndecodable \<Rightarrow> False
      | Some PyOther \<Rightarrow> False)"

definition out_of_range :: "dict \<Rightarrow> string \<Rightarrow> bool" where
  "out_of_range d k =
     (case d k of
        None \<Rightarrow> False
      | Some (PyInt n) \<Rightarrow> n < - (2 ^ 31) \<or> 2 ^ 31 \<le> n
      | Some (PyStr s) \<Rightarrow> False
      | Some (PyBytes s) \<Rightarrow> False
      | Some PyBytesUndecodable \<Rightarrow> False
      | Some PyOther \<Rightarrow> False)"


section \<open>Facts about the extractors\<close>

lemma isBid_isAsk_exclusive: "isAsk s = (\<not> isBid s)"
  by (cases s) (simp_all add: isBid_def isAsk_def)

lemma sint_word_of_int_32:
  "- (2 ^ 31) \<le> n \<Longrightarrow> n < 2 ^ 31 \<Longrightarrow> sint (word_of_int n :: 32 word) = n"
  by (simp add: sint_sbintrunc' signed_take_bit_int_eq_self)

lemma positive_word_of_int_32:
  "- (2 ^ 31) \<le> n \<Longrightarrow> n < 2 ^ 31 \<Longrightarrow> (0 <s (word_of_int n :: 32 word)) = (0 < n)"
  by (simp add: word_sless_alt sint_word_of_int_32)

lemma sle_numeric_limits_max: "p \<le>s numeric_limits_max"
  using sint_lt [of p] by (simp add: word_sle_eq numeric_limits_max_def)

lemma numeric_limits_min_sle: "numeric_limits_min \<le>s p"
  using sint_ge [of p] by (simp add: word_sle_eq numeric_limits_min_def)

lemma extractSide_eq:
  "extractSide d =
     (if d keys_side = Some (PyStr wBuy) \<or> d keys_side = Some (PyBytes wBuy) then Inr bid
      else if d keys_side = Some (PyStr wSell) \<or> d keys_side = Some (PyBytes wSell) then Inr ask
      else if d keys_side = Some PyBytesUndecodable then Inl (PyErr UnicodeDecodeError)
      else Inl WrongSide)"
proof (cases "d keys_side")
  case None
  then show ?thesis
    by (simp add: extractSide_def translate_def getitem_def)
next
  case (Some v)
  then show ?thesis
    by (cases v) (simp_all add: extractSide_def translate_def getitem_def wBuy_def wSell_def)
qed

lemma extractOrderId_eq:
  "extractOrderId d =
     (case d keys_orderId of
        None \<Rightarrow> Inl OrderIdError
      | Some (PyInt n) \<Rightarrow>
          if n < - (2 ^ 31) \<or> 2 ^ 31 \<le> n then Inl (PyErr OverflowError)
          else if 0 < n then Inr (word_of_int n)
          else Inl OrderIdError
      | Some (PyStr s) \<Rightarrow> Inl OrderIdError
      | Some (PyBytes s) \<Rightarrow> Inl OrderIdError
      | Some PyBytesUndecodable \<Rightarrow> Inl OrderIdError
      | Some PyOther \<Rightarrow> Inl OrderIdError)"
proof (cases "d keys_orderId")
  case None
  then show ?thesis
    by (simp add: extractOrderId_def translate_def getitem_def)
next
  case (Some v)
  then show ?thesis
    by (cases v)
      (simp_all add: extractOrderId_def translate_def getitem_def
        positive_word_of_int_32 not_less not_le)
qed

lemma extractPrice_limit_eq:
  "extractPrice False s d =
     (case d keys_price of
        None \<Rightarrow> Inl PriceError
      | Some (PyInt n) \<Rightarrow>
          if n < - (2 ^ 31) \<or> 2 ^ 31 \<le> n then Inl (PyErr OverflowError)
          else if 0 < n then Inr (word_of_int n)
          else Inl PriceError
      | Some (PyStr s) \<Rightarrow> Inl PriceError
      | Some (PyBytes s) \<Rightarrow> Inl PriceError
      | Some PyBytesUndecodable \<Rightarrow> Inl PriceError
      | Some PyOther \<Rightarrow> Inl PriceError)"
proof (cases "d keys_price")
  case None
  then show ?thesis
    by (simp add: extractPrice_def translate_def getitem_def)
next
  case (Some v)
  then show ?thesis
    by (cases v)
      (simp_all add: extractPrice_def translate_def getitem_def
        positive_word_of_int_32 not_less not_le)
qed

lemma extractPrice_market_eq:
  "extractPrice True s d = Inr (if s = bid then numeric_limits_max else numeric_limits_min)"
  by (cases s) (simp_all add: extractPrice_def isBid_def isAsk_def)

lemma extractQuantity_eq:
  "extractQuantity d =
     (case d keys_quantity of
        None \<Rightarrow> Inl QuantityError
      | Some (PyInt n) \<Rightarrow>
          if n < - (2 ^ 31) \<or> 2 ^ 31 \<le> n then Inl (PyErr OverflowError)
          else if 0 < n then Inr (word_of_int n)
          else Inl QuantityError
      | Some (PyStr s) \<Rightarrow> Inl QuantityError
      | Some (PyBytes s) \<Rightarrow> Inl QuantityError
      | Some PyBytesUndecodable \<Rightarrow> Inl QuantityError
      | Some PyOther \<Rightarrow> Inl QuantityError)"
proof (cases "d keys_quantity")
  case None
  then show ?thesis
    by (simp add: extractQuantity_def translate_def getitem_def)
next
  case (Some v)
  then show ?thesis
    by (cases v)
      (simp_all add: extractQuantity_def translate_def getitem_def
        positive_word_of_int_32 not_less not_le)
qed

text \<open>The constructor, for a market order and for a limit order.\<close>

lemma new_Order_market_eq:
  "new_Order t now d True =
     (case extractSide d of
        Inl e \<Rightarrow> Inl e
      | Inr s \<Rightarrow>
          (case extractQuantity d of
             Inl e \<Rightarrow> Inl e
           | Inr q \<Rightarrow>
               Inr \<lparr> isMarketOrder = True, trader = t, time = now, side = s, orderId = 0,
                     price = (if s = bid then numeric_limits_max else numeric_limits_min),
                     quantity = q \<rparr>))"
  by (simp add: new_Order_def extractPrice_market_eq split: sum.splits)

lemma new_Order_limit_eq:
  "new_Order t now d False =
     (case extractSide d of
        Inl e \<Rightarrow> Inl e
      | Inr s \<Rightarrow>
          (case extractOrderId d of
             Inl e \<Rightarrow> Inl e
           | Inr i \<Rightarrow>
               (case extractPrice False bid d of
                  Inl e \<Rightarrow> Inl e
                | Inr p \<Rightarrow>
                    (case extractQuantity d of
                       Inl e \<Rightarrow> Inl e
                     | Inr q \<Rightarrow>
                         Inr \<lparr> isMarketOrder = False, trader = t, time = now, side = s,
                               orderId = i, price = p, quantity = q \<rparr>))))"
  by (simp add: new_Order_def extractPrice_def split: sum.splits)

text \<open>
  The errors a market order can end with, and what is left of the constructor once the
  earlier fields are known to be valid.
\<close>

lemma new_Order_market_errors:
  "new_Order t now d True = Inl e \<Longrightarrow>
     e = WrongSide \<or> e = QuantityError \<or> e = PyErr OverflowError \<or> e = PyErr UnicodeDecodeError"
  by (auto simp: new_Order_market_eq extractSide_eq extractQuantity_eq
      split: sum.splits if_splits option.splits pyobj.splits)

lemma valid_side_accepted: "valid_side d \<Longrightarrow> accepted_side d"
  by (auto simp: valid_side_def accepted_side_def)

lemma accepted_side_extractSide:
  "accepted_side d \<Longrightarrow> \<exists>s. extractSide d = Inr s"
  by (auto simp: accepted_side_def extractSide_eq)

lemma valid_side_extractSide:
  "valid_side d \<Longrightarrow> \<exists>s. extractSide d = Inr s"
  by (auto simp: valid_side_def extractSide_eq)

lemma new_Order_side_error:
  "extractSide d = Inl e \<Longrightarrow> new_Order t now d m = Inl e"
  by (simp add: new_Order_def)

lemma new_Order_side:
  "new_Order t now d m = Inr ord \<Longrightarrow> extractSide d = Inr (side ord)"
  by (auto simp: new_Order_def split: sum.splits)

lemma new_Order_WrongSide:
  "(new_Order t now d m = Inl WrongSide) = (extractSide d = Inl WrongSide)"
proof (cases "extractSide d")
  case (Inl e)
  then show ?thesis by (simp add: new_Order_side_error)
next
  case (Inr s)
  then show ?thesis
    by (cases m)
      (auto simp: new_Order_market_eq new_Order_limit_eq extractOrderId_eq
        extractPrice_limit_eq extractQuantity_eq
        split: sum.splits option.splits pyobj.splits if_splits)
qed

lemma valid_int_word:
  "valid_int d k \<Longrightarrow> \<exists>n. d k = Some (PyInt n) \<and> 0 < n \<and> n < 2 ^ 31"
  by (auto simp: valid_int_def split: option.splits pyobj.splits)

lemma new_Order_before_quantity:
  assumes "accepted_side d" and "m \<or> (valid_int d keys_orderId \<and> valid_int d keys_price)"
  shows "\<exists>s i p. new_Order t now d m =
           (case extractQuantity d of
              Inl e \<Rightarrow> Inl e
            | Inr q \<Rightarrow> Inr \<lparr> isMarketOrder = m, trader = t, time = now, side = s,
                              orderId = i, price = p, quantity = q \<rparr>)"
proof -
  from assms(1) obtain s where s: "extractSide d = Inr s"
    using accepted_side_extractSide by blast
  show ?thesis
  proof (cases m)
    case True
    with s show ?thesis
      by (auto simp: new_Order_market_eq split: sum.splits)
  next
    case False
    with assms(2) obtain i p where "extractOrderId d = Inr i" "extractPrice False bid d = Inr p"
      using valid_int_word [of d keys_orderId] valid_int_word [of d keys_price]
      by (auto simp: extractOrderId_eq extractPrice_limit_eq)
    with s False show ?thesis
      by (auto simp: new_Order_limit_eq split: sum.splits)
  qed
qed


text \<open>Two market orders, as the \<^verbatim>\<open>createMarketOrder\<close> message gives them.\<close>

lemma market_buy_example:
  "new_Order 7 42 (map_of [(''side'', PyStr ''BUY''), (''quantity'', PyInt 3)]) True =
     Inr \<lparr> isMarketOrder = True, trader = 7, time = 42, side = bid, orderId = 0,
           price = 0x7FFFFFFF, quantity = 3 \<rparr>"
  by (simp add: new_Order_market_eq extractSide_eq extractQuantity_eq keys_side_def
      keys_quantity_def wBuy_def wSell_def numeric_limits_max_def)

lemma market_sell_example:
  "new_Order 7 42 (map_of [(''side'', PyStr ''SELL''), (''quantity'', PyInt 8)]) True =
     Inr \<lparr> isMarketOrder = True, trader = 7, time = 42, side = ask, orderId = 0,
           price = 0x80000000, quantity = 8 \<rparr>"
  by (simp add: new_Order_market_eq extractSide_eq extractQuantity_eq keys_side_def
      keys_quantity_def wBuy_def wSell_def numeric_limits_min_def)


section \<open>Price comparison\<close>

text \<open>
  C1. For two orders on opposite sides, \<^verbatim>\<open>comparePrice\<close> is true exactly when the
  prices cross: a BID against a resting ASK when its price is at least the resting
  price, an ASK against a resting BID when its price is at most the resting price.
\<close>

theorem comparePrice_opposite_sides:
  "(side own = bid \<and> side resting = ask \<longrightarrow>
      comparePrice own resting = (sint (price own) \<ge> sint (price resting)))
   \<and> (side own = ask \<and> side resting = bid \<longrightarrow>
      comparePrice own resting = (sint (price own) \<le> sint (price resting)))"
  by (simp add: comparePrice_def isBid_def isAsk_def word_sle_eq)

theorem comparePrice_opposite_sides_witness:
  "comparePrice \<lparr>isMarketOrder = False, trader = 1, time = 5, side = bid, orderId = 1,
                  price = 100, quantity = 10\<rparr>
                \<lparr>isMarketOrder = False, trader = 2, time = 3, side = ask, orderId = 2,
                  price = 99, quantity = 4\<rparr>
   \<and> \<not> comparePrice \<lparr>isMarketOrder = False, trader = 1, time = 5, side = ask, orderId = 1,
                  price = 100, quantity = 10\<rparr>
                \<lparr>isMarketOrder = False, trader = 2, time = 3, side = bid, orderId = 2,
                  price = 99, quantity = 4\<rparr>"
  using comparePrice_opposite_sides
    [of "\<lparr>isMarketOrder = False, trader = 1, time = 5, side = bid, orderId = 1,
                  price = 100, quantity = 10\<rparr>"
        "\<lparr>isMarketOrder = False, trader = 2, time = 3, side = ask, orderId = 2,
                  price = 99, quantity = 4\<rparr>"]
    comparePrice_opposite_sides
    [of "\<lparr>isMarketOrder = False, trader = 1, time = 5, side = ask, orderId = 1,
                  price = 100, quantity = 10\<rparr>"
        "\<lparr>isMarketOrder = False, trader = 2, time = 3, side = bid, orderId = 2,
                  price = 99, quantity = 4\<rparr>"]
  by simp

text \<open>
  C9. Two orders on the same side never compare as crossing, whatever their prices; in
  particular no order crosses itself.
\<close>

theorem comparePrice_same_side:
  "(side a = side b \<longrightarrow> \<not> comparePrice a b) \<and> \<not> comparePrice a a"
  by (simp add: comparePrice_def isBid_isAsk_exclusive)

theorem comparePrice_same_side_witness:
  "\<not> comparePrice \<lparr>isMarketOrder = False, trader = 1, time = 5, side = bid, orderId = 1,
                  price = 100, quantity = 10\<rparr>
                \<lparr>isMarketOrder = False, trader = 2, time = 3, side = bid, orderId = 2,
                  price = 99, quantity = 4\<rparr>"
  using comparePrice_same_side
    [of "\<lparr>isMarketOrder = False, trader = 1, time = 5, side = bid, orderId = 1,
                  price = 100, quantity = 10\<rparr>"
        "\<lparr>isMarketOrder = False, trader = 2, time = 3, side = bid, orderId = 2,
                  price = 99, quantity = 4\<rparr>"]
  by simp


section \<open>Market orders\<close>

text \<open>
  C2. A market order that was constructed has the order id 0 and the sentinel price of
  its side: the greatest value of \<^verbatim>\<open>price_t\<close> for a BID, the least for an ASK.
\<close>

theorem market_order_sentinels:
  assumes "new_Order t now d True = Inr m"
  shows "orderId m = 0
    \<and> (side m = bid \<longrightarrow>
          price m = numeric_limits_max \<and> sint (price m) = 2 ^ 31 - 1 \<and> (\<forall>p. p \<le>s price m))
    \<and> (side m = ask \<longrightarrow>
          price m = numeric_limits_min \<and> sint (price m) = - (2 ^ 31) \<and> (\<forall>p. price m \<le>s p))"
proof -
  from assms obtain s q where m:
    "m = \<lparr> isMarketOrder = True, trader = t, time = now, side = s, orderId = 0,
           price = (if s = bid then numeric_limits_max else numeric_limits_min),
           quantity = q \<rparr>"
    by (auto simp: new_Order_market_eq split: sum.splits)
  have "sint numeric_limits_max = 2 ^ 31 - 1" "sint numeric_limits_min = - (2 ^ 31)"
    by (simp_all add: numeric_limits_max_def numeric_limits_min_def)
  with m show ?thesis
    by (cases s) (simp_all add: sle_numeric_limits_max numeric_limits_min_sle)
qed

theorem market_order_sentinels_witness:
  "new_Order 7 42 (map_of [(''side'', PyStr ''BUY''), (''quantity'', PyInt 3)]) True =
     Inr \<lparr> isMarketOrder = True, trader = 7, time = 42, side = bid, orderId = 0,
           price = 0x7FFFFFFF, quantity = 3 \<rparr>
   \<and> sint (0x7FFFFFFF :: price_t) = 2 ^ 31 - 1"
  using market_order_sentinels [OF market_buy_example] market_buy_example
  by (simp add: numeric_limits_max_def)

text \<open>
  C3. A constructed market order crosses every order on the opposite side (a limit
  order in particular), whatever that order's price: the sentinel of a market BID is at
  least every price, the sentinel of a market ASK at most every price.
\<close>

theorem market_order_crosses:
  assumes "new_Order t now d True = Inr m" and "side r \<noteq> side m"
  shows "comparePrice m r"
proof -
  from assms(1) obtain s q where m:
    "m = \<lparr> isMarketOrder = True, trader = t, time = now, side = s, orderId = 0,
           price = (if s = bid then numeric_limits_max else numeric_limits_min),
           quantity = q \<rparr>"
    by (auto simp: new_Order_market_eq split: sum.splits)
  show ?thesis
  proof (cases s)
    case bid
    with m assms(2) have "side r = ask" by (cases "side r") simp_all
    with m bid show ?thesis
      by (simp add: comparePrice_def isBid_def isAsk_def sle_numeric_limits_max)
  next
    case ask
    with m assms(2) have "side r = bid" by (cases "side r") simp_all
    with m ask show ?thesis
      by (simp add: comparePrice_def isBid_def isAsk_def numeric_limits_min_sle)
  qed
qed

theorem market_order_crosses_witness:
  "comparePrice
     \<lparr> isMarketOrder = True, trader = 7, time = 42, side = ask, orderId = 0,
           price = 0x80000000, quantity = 8 \<rparr>
     \<lparr> isMarketOrder = False, trader = 1, time = 5, side = bid, orderId = 1,
           price = 100, quantity = 5 \<rparr>"
  using market_order_crosses [OF market_sell_example,
      of "\<lparr> isMarketOrder = False, trader = 1, time = 5, side = bid, orderId = 1,
           price = 100, quantity = 5 \<rparr>"]
  by simp

text \<open>
  C4. The constructor of a market order does not look at the fields \<^verbatim>\<open>orderId\<close> and
  \<^verbatim>\<open>price\<close>: its outcome is the same whatever these two hold, it is never
  \<^verbatim>\<open>OrderIdError\<close> or \<^verbatim>\<open>PriceError\<close>, and a record holding only a valid side and a
  valid quantity gives an order whose price is the sentinel of its side.
\<close>

theorem market_order_skips_orderId_and_price:
  "new_Order t now (d(keys_orderId := x, keys_price := y)) True = new_Order t now d True
   \<and> new_Order t now d True \<noteq> Inl OrderIdError
   \<and> new_Order t now d True \<noteq> Inl PriceError
   \<and> ((s = wBuy \<or> s = wSell) \<and> 0 < q \<and> q < 2 ^ 31 \<longrightarrow>
        new_Order t now (map_of [(keys_side, PyStr s), (keys_quantity, PyInt q)]) True =
          Inr \<lparr> isMarketOrder = True, trader = t, time = now,
                side = (if s = wBuy then bid else ask), orderId = 0,
                price = (if s = wBuy then numeric_limits_max else numeric_limits_min),
                quantity = word_of_int q \<rparr>)"
proof -
  have 1: "new_Order t now (d(keys_orderId := x, keys_price := y)) True = new_Order t now d True"
    by (simp add: new_Order_market_eq extractSide_eq extractQuantity_eq
        keys_side_def keys_orderId_def keys_price_def keys_quantity_def)
  have 2: "new_Order t now d True \<noteq> Inl OrderIdError" "new_Order t now d True \<noteq> Inl PriceError"
    using new_Order_market_errors [of t now d] by auto
  have 3: "new_Order t now (map_of [(keys_side, PyStr s), (keys_quantity, PyInt q)]) True =
          Inr \<lparr> isMarketOrder = True, trader = t, time = now,
                side = (if s = wBuy then bid else ask), orderId = 0,
                price = (if s = wBuy then numeric_limits_max else numeric_limits_min),
                quantity = word_of_int q \<rparr>"
    if "s = wBuy \<or> s = wSell" "0 < q" "q < 2 ^ 31"
    using that
    by (auto simp: new_Order_market_eq extractSide_eq extractQuantity_eq
        keys_side_def keys_quantity_def wBuy_def wSell_def)
  from 1 2 3 show ?thesis by blast
qed

theorem market_order_skips_orderId_and_price_witness:
  "new_Order 7 42 (map_of [(''side'', PyStr ''SELL''), (''quantity'', PyInt 8)]) True =
     Inr \<lparr> isMarketOrder = True, trader = 7, time = 42, side = ask, orderId = 0,
           price = 0x80000000, quantity = 8 \<rparr>
   \<and> new_Order 7 42
        ((map_of [(''side'', PyStr ''SELL''), (''quantity'', PyInt 8)])
           (''orderId'' := Some (PyStr ''x''), ''price'' := Some (PyInt (- 5)))) True =
     Inr \<lparr> isMarketOrder = True, trader = 7, time = 42, side = ask, orderId = 0,
           price = 0x80000000, quantity = 8 \<rparr>"
  using market_order_skips_orderId_and_price
    [of 7 42 "map_of [(''side'', PyStr ''SELL''), (''quantity'', PyInt 8)]"
        "Some (PyStr ''x'')" "Some (PyInt (- 5))" "''SELL''" 8]
  by (simp add: keys_side_def keys_orderId_def keys_price_def keys_quantity_def
      wBuy_def wSell_def numeric_limits_min_def)


section \<open>Validation errors of the constructor\<close>

text \<open>
  A side that is a byte string which the codec refuses is not "BUY" or "SELL", and the
  constructor ends with the decoding error of the conversion, not with \<^verbatim>\<open>WrongSide\<close>.
\<close>

theorem undecodable_side_counterexample:
  "new_Order 1 1 (map_of [(''side'', PyBytesUndecodable), (''orderId'', PyInt 1),
      (''price'', PyInt 100), (''quantity'', PyInt 10)]) False = Inl (PyErr UnicodeDecodeError)
   \<and> new_Order 1 1 (map_of [(''side'', PyBytesUndecodable), (''orderId'', PyInt 1),
      (''price'', PyInt 100), (''quantity'', PyInt 10)]) False \<noteq> Inl WrongSide"
  by (simp add: new_Order_limit_eq extractSide_eq keys_side_def)

text \<open>
  C5. The constructor raises \<^verbatim>\<open>WrongSide\<close> exactly when the side field is missing, is
  neither a text string nor a byte string, or is a text string or a decodable byte
  string that reads other than "BUY" and "SELL"; a byte string that the codec refuses
  gives the decoding error; and an order that is constructed has the side BID when the
  field reads "BUY" and ASK when it reads "SELL".
\<close>

theorem wrong_side_iff:
  "(new_Order t now d m = Inl WrongSide) =
     (d keys_side = None \<or> d keys_side = Some PyOther \<or> (\<exists>n. d keys_side = Some (PyInt n))
      \<or> (\<exists>s. (d keys_side = Some (PyStr s) \<or> d keys_side = Some (PyBytes s))
              \<and> s \<noteq> ''BUY'' \<and> s \<noteq> ''SELL''))
   \<and> (d keys_side = Some PyBytesUndecodable \<longrightarrow>
        new_Order t now d m = Inl (PyErr UnicodeDecodeError))
   \<and> (new_Order t now d m = Inr ord \<longrightarrow>
        ((d keys_side = Some (PyStr ''BUY'') \<or> d keys_side = Some (PyBytes ''BUY''))
           \<and> side ord = bid)
        \<or> ((d keys_side = Some (PyStr ''SELL'') \<or> d keys_side = Some (PyBytes ''SELL''))
           \<and> side ord = ask))"
proof -
  have iff: "(extractSide d = Inl WrongSide) =
     (d keys_side = None \<or> d keys_side = Some PyOther \<or> (\<exists>n. d keys_side = Some (PyInt n))
      \<or> (\<exists>s. (d keys_side = Some (PyStr s) \<or> d keys_side = Some (PyBytes s))
              \<and> s \<noteq> ''BUY'' \<and> s \<noteq> ''SELL''))"
  proof (cases "d keys_side")
    case None
    then show ?thesis by (simp add: extractSide_eq)
  next
    case (Some v)
    then show ?thesis
      by (cases v) (auto simp: extractSide_eq wBuy_def wSell_def)
  qed
  have undecodable: "new_Order t now d m = Inl (PyErr UnicodeDecodeError)"
    if "d keys_side = Some PyBytesUndecodable"
    using that by (simp add: new_Order_side_error extractSide_eq)
  have built: "((d keys_side = Some (PyStr ''BUY'') \<or> d keys_side = Some (PyBytes ''BUY''))
           \<and> side ord = bid)
        \<or> ((d keys_side = Some (PyStr ''SELL'') \<or> d keys_side = Some (PyBytes ''SELL''))
           \<and> side ord = ask)"
    if "new_Order t now d m = Inr ord"
    using new_Order_side [OF that]
    by (auto simp: extractSide_eq wBuy_def wSell_def split: if_splits)
  from iff undecodable built show ?thesis
    by (simp add: new_Order_WrongSide)
qed

theorem wrong_side_iff_witness:
  "new_Order 1 1 (map_of [(''side'', PyStr ''HOLD''), (''orderId'', PyInt 1),
      (''price'', PyInt 100), (''quantity'', PyInt 10)]) False = Inl WrongSide"
  using wrong_side_iff [of 1 1 "map_of [(''side'', PyStr ''HOLD''), (''orderId'', PyInt 1),
      (''price'', PyInt 100), (''quantity'', PyInt 10)]" False]
  by (simp add: keys_side_def)

text \<open>
  An order id below the range of \<^verbatim>\<open>int\<close> is at most 0, and the constructor ends with
  the overflow error of the conversion, not with \<^verbatim>\<open>OrderIdError\<close>.
\<close>

theorem orderId_below_int_range_counterexample:
  "(- 2147483649 :: int) \<le> 0
   \<and> new_Order 1 1 (map_of [(''side'', PyStr ''BUY''), (''orderId'', PyInt (- 2147483649)),
        (''price'', PyInt 100), (''quantity'', PyInt 10)]) False = Inl (PyErr OverflowError)
   \<and> new_Order 1 1 (map_of [(''side'', PyStr ''BUY''), (''orderId'', PyInt (- 2147483649)),
        (''price'', PyInt 100), (''quantity'', PyInt 10)]) False \<noteq> Inl OrderIdError"
  by (simp add: new_Order_limit_eq extractSide_eq extractOrderId_eq
      keys_side_def keys_orderId_def wBuy_def)

text \<open>
  C6. For a limit order whose side is valid, the constructor raises \<^verbatim>\<open>OrderIdError\<close>
  exactly when the \<^verbatim>\<open>orderId\<close> field is missing, is not an integer, or is an integer
  of the range of \<^verbatim>\<open>int\<close> that is at most 0; an integer outside that range gives the
  overflow error; and an order that is constructed has the order id of the record, which
  is positive.
\<close>

theorem orderId_error_iff:
  assumes "valid_side d"
  shows "(new_Order t now d False = Inl OrderIdError) =
           (d keys_orderId = None \<or> d keys_orderId = Some PyOther
            \<or> (\<exists>s. d keys_orderId = Some (PyStr s))
            \<or> (\<exists>s. d keys_orderId = Some (PyBytes s)) \<or> d keys_orderId = Some PyBytesUndecodable
            \<or> (\<exists>n. d keys_orderId = Some (PyInt n) \<and> - (2 ^ 31) \<le> n \<and> n \<le> 0))
         \<and> (out_of_range d keys_orderId \<longrightarrow>
              new_Order t now d False = Inl (PyErr OverflowError))
         \<and> (new_Order t now d False = Inr ord \<longrightarrow>
              d keys_orderId = Some (PyInt (sint (orderId ord))) \<and> 0 < sint (orderId ord))"
proof -
  from assms obtain s where s: "extractSide d = Inr s"
    using valid_side_extractSide by blast
  show ?thesis
  proof (cases "d keys_orderId")
    case None
    with s show ?thesis
      by (simp add: new_Order_limit_eq extractOrderId_eq out_of_range_def)
  next
    case (Some v)
    show ?thesis
    proof (cases v)
      case (PyInt n)
      with Some s show ?thesis
        by (auto simp: new_Order_limit_eq extractOrderId_eq out_of_range_def
            extractPrice_limit_eq extractQuantity_eq sint_word_of_int_32
            split: sum.splits option.splits pyobj.splits if_splits)
    next
      case (PyStr x)
      with Some s show ?thesis
        by (simp add: new_Order_limit_eq extractOrderId_eq out_of_range_def)
    next
      case (PyBytes x)
      with Some s show ?thesis
        by (simp add: new_Order_limit_eq extractOrderId_eq out_of_range_def)
    next
      case PyBytesUndecodable
      with Some s show ?thesis
        by (simp add: new_Order_limit_eq extractOrderId_eq out_of_range_def)
    next
      case PyOther
      with Some s show ?thesis
        by (simp add: new_Order_limit_eq extractOrderId_eq out_of_range_def)
    qed
  qed
qed

theorem orderId_error_iff_witness:
  "valid_side (map_of [(''side'', PyStr ''BUY''), (''orderId'', PyInt 0),
        (''price'', PyInt 100), (''quantity'', PyInt 10)])
   \<and> new_Order 1 1 (map_of [(''side'', PyStr ''BUY''), (''orderId'', PyInt 0),
        (''price'', PyInt 100), (''quantity'', PyInt 10)]) False = Inl OrderIdError"
proof -
  have h: "valid_side (map_of [(''side'', PyStr ''BUY''), (''orderId'', PyInt 0),
        (''price'', PyInt 100), (''quantity'', PyInt 10)])"
    by (simp add: valid_side_def keys_side_def wBuy_def)
  show ?thesis
    using h orderId_error_iff [OF h, of 1 1]
    by (simp add: keys_orderId_def)
qed

text \<open>
  A price below the range of \<^verbatim>\<open>int\<close> is at most 0, and the constructor ends with the
  overflow error of the conversion, not with \<^verbatim>\<open>PriceError\<close>.
\<close>

theorem price_below_int_range_counterexample:
  "(- 2147483649 :: int) \<le> 0
   \<and> new_Order 1 1 (map_of [(''side'', PyStr ''BUY''), (''orderId'', PyInt 1),
        (''price'', PyInt (- 2147483649)), (''quantity'', PyInt 10)]) False
       = Inl (PyErr OverflowError)
   \<and> new_Order 1 1 (map_of [(''side'', PyStr ''BUY''), (''orderId'', PyInt 1),
        (''price'', PyInt (- 2147483649)), (''quantity'', PyInt 10)]) False
       \<noteq> Inl PriceError"
  by (simp add: new_Order_limit_eq extractSide_eq extractOrderId_eq extractPrice_limit_eq
      keys_side_def keys_orderId_def keys_price_def wBuy_def)

text \<open>
  C7. For a limit order whose side and order id are valid, the constructor raises
  \<^verbatim>\<open>PriceError\<close> exactly when the \<^verbatim>\<open>price\<close> field is missing, is not an integer, or
  is an integer of the range of \<^verbatim>\<open>int\<close> that is at most 0; an integer outside that
  range gives the overflow error; and an order that is constructed has the price of the
  record, which is positive.
\<close>

theorem price_error_iff:
  assumes "valid_side d" and "valid_int d keys_orderId"
  shows "(new_Order t now d False = Inl PriceError) =
           (d keys_price = None \<or> d keys_price = Some PyOther
            \<or> (\<exists>s. d keys_price = Some (PyStr s))
            \<or> (\<exists>s. d keys_price = Some (PyBytes s)) \<or> d keys_price = Some PyBytesUndecodable
            \<or> (\<exists>n. d keys_price = Some (PyInt n) \<and> - (2 ^ 31) \<le> n \<and> n \<le> 0))
         \<and> (out_of_range d keys_price \<longrightarrow>
              new_Order t now d False = Inl (PyErr OverflowError))
         \<and> (new_Order t now d False = Inr ord \<longrightarrow>
              d keys_price = Some (PyInt (sint (price ord))) \<and> 0 < sint (price ord))"
proof -
  from assms(1) obtain s where s: "extractSide d = Inr s"
    using valid_side_extractSide by blast
  from assms(2) obtain i where i: "extractOrderId d = Inr i"
    using valid_int_word [of d keys_orderId] by (auto simp: extractOrderId_eq)
  show ?thesis
  proof (cases "d keys_price")
    case None
    with s i show ?thesis
      by (simp add: new_Order_limit_eq extractPrice_limit_eq out_of_range_def)
  next
    case (Some v)
    show ?thesis
    proof (cases v)
      case (PyInt n)
      with Some s i show ?thesis
        by (auto simp: new_Order_limit_eq extractPrice_limit_eq out_of_range_def
            extractQuantity_eq sint_word_of_int_32
            split: sum.splits option.splits pyobj.splits if_splits)
    next
      case (PyStr x)
      with Some s i show ?thesis
        by (simp add: new_Order_limit_eq extractPrice_limit_eq out_of_range_def)
    next
      case (PyBytes x)
      with Some s i show ?thesis
        by (simp add: new_Order_limit_eq extractPrice_limit_eq out_of_range_def)
    next
      case PyBytesUndecodable
      with Some s i show ?thesis
        by (simp add: new_Order_limit_eq extractPrice_limit_eq out_of_range_def)
    next
      case PyOther
      with Some s i show ?thesis
        by (simp add: new_Order_limit_eq extractPrice_limit_eq out_of_range_def)
    qed
  qed
qed

theorem price_error_iff_witness:
  "valid_side (map_of [(''side'', PyStr ''SELL''), (''orderId'', PyInt 2),
        (''quantity'', PyInt 10)])
   \<and> valid_int (map_of [(''side'', PyStr ''SELL''), (''orderId'', PyInt 2),
        (''quantity'', PyInt 10)]) keys_orderId
   \<and> new_Order 1 1 (map_of [(''side'', PyStr ''SELL''), (''orderId'', PyInt 2),
        (''quantity'', PyInt 10)]) False = Inl PriceError"
proof -
  have h1: "valid_side (map_of [(''side'', PyStr ''SELL''), (''orderId'', PyInt 2),
        (''quantity'', PyInt 10)])"
    by (simp add: valid_side_def keys_side_def wSell_def)
  have h2: "valid_int (map_of [(''side'', PyStr ''SELL''), (''orderId'', PyInt 2),
        (''quantity'', PyInt 10)]) keys_orderId"
    by (simp add: valid_int_def keys_orderId_def)
  show ?thesis
    using h1 h2 price_error_iff [OF h1 h2, of 1 1]
    by (simp add: keys_price_def)
qed

text \<open>
  A quantity below the range of \<^verbatim>\<open>int\<close> is at most 0, and the constructor ends with
  the overflow error of the conversion, not with \<^verbatim>\<open>QuantityError\<close>.
\<close>

theorem quantity_below_int_range_counterexample:
  "(- 2147483649 :: int) \<le> 0
   \<and> new_Order 1 1 (map_of [(''side'', PyStr ''SELL''),
        (''quantity'', PyInt (- 2147483649))]) True = Inl (PyErr OverflowError)
   \<and> new_Order 1 1 (map_of [(''side'', PyStr ''SELL''),
        (''quantity'', PyInt (- 2147483649))]) True \<noteq> Inl QuantityError"
  by (simp add: new_Order_market_eq extractSide_eq extractQuantity_eq
      keys_side_def keys_quantity_def wBuy_def wSell_def)

text \<open>
  C8. For a market order whose side is valid, and for a limit order whose side, order id
  and price are valid, the constructor raises \<^verbatim>\<open>QuantityError\<close> exactly when the
  \<^verbatim>\<open>quantity\<close> field is missing, is not an integer, or is an integer of the range of
  \<^verbatim>\<open>int\<close> that is at most 0; an integer outside that range gives the overflow error;
  and an order that is constructed has the quantity of the record, which is positive.
\<close>

theorem quantity_error_iff:
  assumes "valid_side d" and "m \<or> (valid_int d keys_orderId \<and> valid_int d keys_price)"
  shows "(new_Order t now d m = Inl QuantityError) =
           (d keys_quantity = None \<or> d keys_quantity = Some PyOther
            \<or> (\<exists>s. d keys_quantity = Some (PyStr s))
            \<or> (\<exists>s. d keys_quantity = Some (PyBytes s)) \<or> d keys_quantity = Some PyBytesUndecodable
            \<or> (\<exists>n. d keys_quantity = Some (PyInt n) \<and> - (2 ^ 31) \<le> n \<and> n \<le> 0))
         \<and> (out_of_range d keys_quantity \<longrightarrow>
              new_Order t now d m = Inl (PyErr OverflowError))
         \<and> (new_Order t now d m = Inr ord \<longrightarrow>
              d keys_quantity = Some (PyInt (sint (quantity ord))) \<and> 0 < sint (quantity ord))"
proof -
  from new_Order_before_quantity [OF valid_side_accepted [OF assms(1)] assms(2)]
  obtain s i p where eq:
    "new_Order t now d m =
           (case extractQuantity d of
              Inl e \<Rightarrow> Inl e
            | Inr q \<Rightarrow> Inr \<lparr> isMarketOrder = m, trader = t, time = now, side = s,
                              orderId = i, price = p, quantity = q \<rparr>)"
    by blast
  show ?thesis
  proof (cases "d keys_quantity")
    case None
    then show ?thesis
      by (simp add: eq extractQuantity_eq out_of_range_def)
  next
    case (Some v)
    show ?thesis
    proof (cases v)
      case (PyInt n)
      with Some show ?thesis
        by (auto simp: eq extractQuantity_eq out_of_range_def sint_word_of_int_32
            split: if_splits)
    next
      case (PyStr x)
      with Some show ?thesis
        by (simp add: eq extractQuantity_eq out_of_range_def)
    next
      case (PyBytes x)
      with Some show ?thesis
        by (simp add: eq extractQuantity_eq out_of_range_def)
    next
      case PyBytesUndecodable
      with Some show ?thesis
        by (simp add: eq extractQuantity_eq out_of_range_def)
    next
      case PyOther
      with Some show ?thesis
        by (simp add: eq extractQuantity_eq out_of_range_def)
    qed
  qed
qed

theorem quantity_error_iff_witness:
  "valid_side (map_of [(''side'', PyStr ''BUY''), (''quantity'', PyStr ''ten'')])
   \<and> new_Order 1 1 (map_of [(''side'', PyStr ''BUY''), (''quantity'', PyStr ''ten'')]) True
       = Inl QuantityError"
proof -
  have h: "valid_side (map_of [(''side'', PyStr ''BUY''), (''quantity'', PyStr ''ten'')])"
    by (simp add: valid_side_def keys_side_def wBuy_def)
  show ?thesis
    using h quantity_error_iff [OF h, of True 1 1]
    by (simp add: keys_quantity_def)
qed



end
